theory Spec2Isabelle
  imports Main
begin

section \<open>The ElaService reconciliation controller\<close>

text \<open>
  A shallow embedding of \<^verbatim>\<open>pkg/controller/elaservice/controller.go\<close>: the worker step
  \<^verbatim>\<open>processNextWorkItem\<close>, the Sync Handler \<^verbatim>\<open>syncHandler\<close> and the functions it calls.
  The controller talks to the cluster through interface-typed clients, a lister and a work
  queue; the embedding takes them as records of functions over a cluster state \<open>'w\<close> and
  threads that state explicitly. Every call on a client, on the queue, on the logger and on
  the event recorder is appended to a trace, so that what the code did can be read back.
\<close>

subsection \<open>API objects\<close>

record OwnerReference =
  Kind :: string
  RefName :: string
  Controller :: bool

text \<open>
  The fields of a Kubernetes object that the controller reads or writes. \<open>'spec\<close> and
  \<open>'status\<close> are the kind-specific parts.
\<close>

record ('spec, 'status) Object =
  Name :: string
  Namespace :: string
  OwnerReferences :: "OwnerReference list"
  Spec :: 'spec
  Status :: 'status

text \<open>\<^verbatim>\<open>v1alpha1.TrafficTarget\<close>; Go's \<^verbatim>\<open>int\<close> is carried through without arithmetic.\<close>

record TrafficTarget =
  Revision :: string
  RevisionTemplate :: string
  Percent :: int

record RolloutSpec =
  Traffic :: "TrafficTarget list"

record ElaServiceSpec =
  Rollout :: RolloutSpec

record RevisionTemplateStatus =
  Latest :: string

record RevisionStatus =
  ServiceName :: string

type_synonym ElaService = "(ElaServiceSpec, unit) Object"
type_synonym RevisionTemplate = "(unit, RevisionTemplateStatus) Object"
type_synonym Revision = "(unit, RevisionStatus) Object"

text \<open>
  The three derived kinds (\<^verbatim>\<open>corev1.Service\<close>, \<^verbatim>\<open>v1beta1.Ingress\<close>, the Istio
  \<^verbatim>\<open>RouteRule\<close>). Their specs are built by functions of the repository that are not part of
  the controller file, so the spec body is the opaque type \<open>'x\<close>.
\<close>

type_synonym 'x Service = "('x, unit) Object"
type_synonym 'x Ingress = "('x, unit) Object"
type_synonym 'x RouteRule = "('x, unit) Object"

text \<open>\<^verbatim>\<open>RevisionRoute\<close>, lines 65-71.\<close>

record RevisionRoute =
  Service :: string
  Weight :: int

subsection \<open>Errors\<close>

text \<open>
  A Go \<^verbatim>\<open>error\<close> is either an API status error, which carries the reason that
  \<^verbatim>\<open>errors.IsNotFound\<close> and \<^verbatim>\<open>errors.IsAlreadyExists\<close> inspect, or a plain error made by
  \<^verbatim>\<open>fmt.Errorf\<close>.
\<close>

datatype StatusReason =
    StatusReasonUnknown
  | StatusReasonNotFound
  | StatusReasonAlreadyExists
  | StatusReasonConflict
  | StatusReasonServerTimeout

datatype error =
    StatusError StatusReason string
  | errorString string

fun IsNotFound :: "error \<Rightarrow> bool" where
  "IsNotFound (StatusError r m) = (r = StatusReasonNotFound)"
| "IsNotFound (errorString m) = False"

fun IsAlreadyExists :: "error \<Rightarrow> bool" where
  "IsAlreadyExists (StatusError r m) = (r = StatusReasonAlreadyExists)"
| "IsAlreadyExists (errorString m) = False"

fun Error :: "error \<Rightarrow> string" where
  "Error (StatusError r m) = m"
| "Error (errorString m) = m"

subsection \<open>Work items, trace and state\<close>

text \<open>
  The work queue holds values of type \<^verbatim>\<open>interface{}\<close>. The worker expects strings; any other
  value is kept with its \<^verbatim>\<open>%#v\<close> rendering, the only thing the code does with it.
\<close>

datatype item = StringItem string | OtherItem string

datatype Resource =
    ElaServicesR
  | ServicesR
  | IngressesR
  | RevisionTemplatesR
  | RevisionsR
  | RouteRulesR

text \<open>Arguments of a log call, kept unformatted beside the format string.\<close>

datatype arg =
    ArgString string
  | ArgInt int
  | ArgError error
  | ArgTarget TrafficTarget
  | ArgElaService ElaService

text \<open>
  One entry per call that leaves the controller. A client call is recorded with the
  namespace of the client, the name or the object passed, and the error it returned
  (\<open>None\<close> for \<^verbatim>\<open>nil\<close>). The client interfaces also offer \<^verbatim>\<open>Delete\<close>; the trace type has an
  entry for it although no function below produces one.
\<close>

datatype 'x event =
    LogPrintf string "arg list"
  | GlogInfof string "arg list"
  | HandleError error
  | RecorderEvent string string string string
  | WorkqueueGet item bool
  | WorkqueueDone item
  | WorkqueueForget item
  | WorkqueueAddRateLimited item
  | ClientGet Resource string string "error option"
  | ClientCreate Resource string "('x, unit) Object" "error option"
  | ClientUpdate Resource string "('x, unit) Object" "error option"
  | ClientDelete Resource string string "error option"

record ('w, 'x) state =
  world :: 'w
  trace :: "'x event list"

subsection \<open>Clients, lister and queue\<close>

text \<open>
  A namespaced typed client. \<open>Get\<close> reads the cluster state and leaves it as it is;
  \<open>Create\<close> and \<open>Update\<close> return the new cluster state with the error. The object that the
  real \<^verbatim>\<open>Create\<close> and \<^verbatim>\<open>Update\<close> return beside the error is dropped by every caller
  (\<^verbatim>\<open>_, err := ...\<close>) and is not modelled.
\<close>

record ('w, 'o) ResourceInterface =
  Get :: "string \<Rightarrow> 'w \<Rightarrow> error + 'o"
  Create :: "'o \<Rightarrow> 'w \<Rightarrow> error option \<times> 'w"
  Update :: "'o \<Rightarrow> 'w \<Rightarrow> error option \<times> 'w"

text \<open>
  \<^verbatim>\<open>workqueue.RateLimitingInterface\<close>. \<open>GetItem\<close> is the queue's \<^verbatim>\<open>Get\<close>, which blocks until
  an item is there or the queue shuts down; the embedding covers the calls that return.
\<close>

record 'w RateLimitingInterface =
  GetItem :: "'w \<Rightarrow> (item \<times> bool) \<times> 'w"
  Done :: "item \<Rightarrow> 'w \<Rightarrow> 'w"
  Forget :: "item \<Rightarrow> 'w \<Rightarrow> 'w"
  AddRateLimited :: "item \<Rightarrow> 'w \<Rightarrow> 'w"

text \<open>
  \<^verbatim>\<open>ElaServiceControllerImpl\<close>, lines 74-92, with the two clientsets flattened into the
  namespaced clients the code asks them for: \<open>Services\<close> is
  \<^verbatim>\<open>c.kubeclientset.Core().Services(ns)\<close>, \<open>Ingresses\<close> is
  \<^verbatim>\<open>c.kubeclientset.Extensions().Ingresses(ns)\<close>, \<open>RevisionTemplates\<close>, \<open>Revisions\<close> and
  \<open>RouteRules\<close> come from \<^verbatim>\<open>c.elaclientset\<close>, and \<open>lister\<close> is
  \<^verbatim>\<open>c.lister.ElaServices(namespace).Get(name)\<close>. \<open>RouteRules\<close> may be \<^verbatim>\<open>nil\<close>, which the
  code checks.
\<close>

record ('w, 'x) ElaServiceControllerImpl =
  Services :: "string \<Rightarrow> ('w, ('x, unit) Object) ResourceInterface"
  Ingresses :: "string \<Rightarrow> ('w, ('x, unit) Object) ResourceInterface"
  RevisionTemplates :: "string \<Rightarrow> ('w, RevisionTemplate) ResourceInterface"
  Revisions :: "string \<Rightarrow> ('w, Revision) ResourceInterface"
  RouteRules :: "string \<Rightarrow> ('w, ('x, unit) Object) ResourceInterface option"
  lister :: "string \<Rightarrow> string \<Rightarrow> 'w \<Rightarrow> error + ElaService"
  workqueue :: "'w RateLimitingInterface"

text \<open>
  Functions the controller file calls and does not define: the builders and name helpers
  of the repository (\<^verbatim>\<open>MakeElaService...\<close> in the controller's package, \<^verbatim>\<open>util.GetEla...\<close>),
  whose files are not among the sources, and three library functions,
  \<^verbatim>\<open>cache.SplitMetaNamespaceKey\<close>, \<^verbatim>\<open>cache.MetaNamespaceKeyFunc\<close> and
  \<^verbatim>\<open>metav1.NewControllerRef\<close> (applied to the package variable \<^verbatim>\<open>serviceKind\<close>). They are parameters of the embedding.
\<close>

record 'x package =
  SplitMetaNamespaceKey :: "string \<Rightarrow> error + (string \<times> string)"
  MetaNamespaceKeyFunc :: "ElaService \<Rightarrow> error + string"
  NewControllerRef :: "ElaService \<Rightarrow> OwnerReference"
  GetElaNamespaceName :: "string \<Rightarrow> string"
  GetElaK8SIngressName :: "ElaService \<Rightarrow> string"
  GetElaIstioRouteRuleName :: "ElaService \<Rightarrow> string"
  MakeElaServiceK8SService :: "ElaService \<Rightarrow> ('x, unit) Object"
  MakeElaServiceIngress :: "ElaService \<Rightarrow> string \<Rightarrow> ('x, unit) Object"
  MakeElaServiceIstioRoutes :: "ElaService \<Rightarrow> string \<Rightarrow> RevisionRoute list \<Rightarrow> ('x, unit) Object"
  MakeElaServiceIstioSpec :: "ElaService \<Rightarrow> string \<Rightarrow> RevisionRoute list \<Rightarrow> 'x"

definition SuccessSynced :: string where
  "SuccessSynced = ''Synced''"

definition MessageResourceSynced :: string where
  "MessageResourceSynced = ''ElaService synced successfully''"

definition EventTypeNormal :: string where
  "EventTypeNormal = ''Normal''"

subsection \<open>Traced calls\<close>

definition emit :: "'x event \<Rightarrow> ('w, 'x) state \<Rightarrow> ('w, 'x) state" where
  "emit e s = s\<lparr>trace := trace s @ [e]\<rparr>"

definition errOf :: "error + 'o \<Rightarrow> error option" where
  "errOf r = (case r of Inl e \<Rightarrow> Some e | Inr v \<Rightarrow> None)"

definition clientGet ::
  "Resource \<Rightarrow> string \<Rightarrow> ('w, 'o) ResourceInterface \<Rightarrow> string \<Rightarrow> ('w, 'x) state
    \<Rightarrow> (error + 'o) \<times> ('w, 'x) state" where
  "clientGet k ns ri name s =
     (let r = Get ri name (world s) in (r, emit (ClientGet k ns name (errOf r)) s))"

definition clientCreate ::
  "Resource \<Rightarrow> string \<Rightarrow> ('w, ('x, unit) Object) ResourceInterface \<Rightarrow> ('x, unit) Object
    \<Rightarrow> ('w, 'x) state \<Rightarrow> error option \<times> ('w, 'x) state" where
  "clientCreate k ns ri ob s =
     (case Create ri ob (world s) of
        (r, w) \<Rightarrow> (r, emit (ClientCreate k ns ob r) (s\<lparr>world := w\<rparr>)))"

definition clientUpdate ::
  "Resource \<Rightarrow> string \<Rightarrow> ('w, ('x, unit) Object) ResourceInterface \<Rightarrow> ('x, unit) Object
    \<Rightarrow> ('w, 'x) state \<Rightarrow> error option \<times> ('w, 'x) state" where
  "clientUpdate k ns ri ob s =
     (case Update ri ob (world s) of
        (r, w) \<Rightarrow> (r, emit (ClientUpdate k ns ob r) (s\<lparr>world := w\<rparr>)))"

definition listerGet ::
  "('w, 'x) ElaServiceControllerImpl \<Rightarrow> string \<Rightarrow> string \<Rightarrow> ('w, 'x) state
    \<Rightarrow> (error + ElaService) \<times> ('w, 'x) state" where
  "listerGet c ns name s =
     (let r = lister c ns name (world s) in (r, emit (ClientGet ElaServicesR ns name (errOf r)) s))"

definition workqueueGet ::
  "('w, 'x) ElaServiceControllerImpl \<Rightarrow> ('w, 'x) state \<Rightarrow> (item \<times> bool) \<times> ('w, 'x) state" where
  "workqueueGet c s =
     (case GetItem (workqueue c) (world s) of
        ((obj, shutdown), w) \<Rightarrow> ((obj, shutdown), emit (WorkqueueGet obj shutdown) (s\<lparr>world := w\<rparr>)))"

definition workqueueDone :: "('w, 'x) ElaServiceControllerImpl \<Rightarrow> item \<Rightarrow> ('w, 'x) state \<Rightarrow> ('w, 'x) state" where
  "workqueueDone c obj s = emit (WorkqueueDone obj) (s\<lparr>world := Done (workqueue c) obj (world s)\<rparr>)"

definition workqueueForget :: "('w, 'x) ElaServiceControllerImpl \<Rightarrow> item \<Rightarrow> ('w, 'x) state \<Rightarrow> ('w, 'x) state" where
  "workqueueForget c obj s = emit (WorkqueueForget obj) (s\<lparr>world := Forget (workqueue c) obj (world s)\<rparr>)"

definition workqueueAddRateLimited ::
  "('w, 'x) ElaServiceControllerImpl \<Rightarrow> item \<Rightarrow> ('w, 'x) state \<Rightarrow> ('w, 'x) state" where
  "workqueueAddRateLimited c obj s =
     emit (WorkqueueAddRateLimited obj) (s\<lparr>world := AddRateLimited (workqueue c) obj (world s)\<rparr>)"

definition printf :: "string \<Rightarrow> arg list \<Rightarrow> ('w, 'x) state \<Rightarrow> ('w, 'x) state" where
  "printf f as s = emit (LogPrintf f as) s"

definition infof :: "string \<Rightarrow> arg list \<Rightarrow> ('w, 'x) state \<Rightarrow> ('w, 'x) state" where
  "infof f as s = emit (GlogInfof f as) s"

subsection \<open>The controller\<close>

text \<open>\<^verbatim>\<open>enqueueElaService\<close>, lines 243-251: the event handler that feeds the queue.\<close>

definition enqueueElaService ::
  "('w, 'x) ElaServiceControllerImpl \<Rightarrow> 'x package \<Rightarrow> ElaService \<Rightarrow> ('w, 'x) state \<Rightarrow> ('w, 'x) state" where
  "enqueueElaService c p obj s =
     (case MetaNamespaceKeyFunc p obj of
        Inl err \<Rightarrow> emit (HandleError err) s
      | Inr key \<Rightarrow> workqueueAddRateLimited c (StringItem key) s)"

text \<open>
  \<^verbatim>\<open>createPlaceholderService\<close>, lines 313-328. A function that returns a Go \<^verbatim>\<open>error\<close>
  returns an \<open>error option\<close> here, \<open>None\<close> for \<^verbatim>\<open>nil\<close>.
\<close>

definition createPlaceholderService ::
  "('w, 'x) ElaServiceControllerImpl \<Rightarrow> 'x package \<Rightarrow> ElaService \<Rightarrow> string \<Rightarrow> ('w, 'x) state
    \<Rightarrow> error option \<times> ('w, 'x) state" where
  "createPlaceholderService c p u ns s =
     (let service = MakeElaServiceK8SService p u;
          serviceRef = NewControllerRef p u;
          service = service\<lparr>OwnerReferences := OwnerReferences service @ [serviceRef]\<rparr>;
          sc = Services c ns
      in case clientCreate ServicesR ns sc service s of
           (Some err, s1) \<Rightarrow>
             if \<not> IsAlreadyExists err
             then (Some err, printf ''Failed to create service: %s'' [ArgError err] s1)
             else (None, printf ''Created service: %q'' [ArgString (Name service)] s1)
         | (None, s1) \<Rightarrow> (None, printf ''Created service: %q'' [ArgString (Name service)] s1))"

text \<open>\<^verbatim>\<open>createOrUpdateIngress\<close>, lines 330-350.\<close>

definition createOrUpdateIngress ::
  "('w, 'x) ElaServiceControllerImpl \<Rightarrow> 'x package \<Rightarrow> ElaService \<Rightarrow> string \<Rightarrow> ('w, 'x) state
    \<Rightarrow> error option \<times> ('w, 'x) state" where
  "createOrUpdateIngress c p es ns s =
     (let ingressName = GetElaK8SIngressName p es;
          ic = Ingresses c ns;
          ingress = MakeElaServiceIngress p es ns;
          serviceRef = NewControllerRef p es;
          ingress = ingress\<lparr>OwnerReferences := OwnerReferences ingress @ [serviceRef]\<rparr>
      in case clientGet IngressesR ns ic ingressName s of
           (Inl err, s1) \<Rightarrow>
             if \<not> IsNotFound err then (Some err, s1)
             else (case clientCreate IngressesR ns ic ingress s1 of
                     (createErr, s2) \<Rightarrow>
                       (createErr, printf ''Created ingress %q'' [ArgString (Name ingress)] s2))
         | (Inr found, s1) \<Rightarrow> (None, s1))"

text \<open>
  \<^verbatim>\<open>getRouteForTrafficTarget\<close>, lines 366-385. The two results of the Go function are a
  pair; \<^verbatim>\<open>RevisionRoute{}\<close> is the zero value. \<open>fetch\<close> is the code from line 378 on, reached
  with the revision name chosen above it.
\<close>

definition getRouteForTrafficTarget ::
  "('w, 'x) ElaServiceControllerImpl \<Rightarrow> 'x package \<Rightarrow> TrafficTarget \<Rightarrow> string \<Rightarrow> ('w, 'x) state
    \<Rightarrow> (RevisionRoute \<times> error option) \<times> ('w, 'x) state" where
  "getRouteForTrafficTarget c p tt ns s =
     (let elaNS = GetElaNamespaceName p ns;
          fetch = (\<lambda>revisionName s1.
            case clientGet RevisionsR ns (Revisions c ns) revisionName s1 of
              (Inl err, s2) \<Rightarrow>
                ((\<lparr>Service = [], Weight = 0\<rparr>, Some err),
                 printf ''Failed to fetch Revision: %s : %s'' [ArgString revisionName, ArgError err] s2)
            | (Inr revision, s2) \<Rightarrow>
                ((\<lparr>Service = ServiceName (Status revision) @ ''.'' @ elaNS, Weight = Percent tt\<rparr>, None), s2))
      in if RevisionTemplate tt \<noteq> []
         then (case clientGet RevisionTemplatesR ns (RevisionTemplates c ns) (RevisionTemplate tt) s of
                 (Inl err, s1) \<Rightarrow> ((\<lparr>Service = [], Weight = 0\<rparr>, Some err), s1)
               | (Inr rt, s1) \<Rightarrow> fetch (Latest (Status rt)) s1)
         else fetch (Revision tt) s)"

text \<open>
  \<^verbatim>\<open>getRoutes\<close>, lines 352-364. The loop over \<^verbatim>\<open>u.Spec.Rollout.Traffic\<close> is
  \<open>getRoutes_loop\<close>, with \<open>ret\<close> the slice built so far; \<^verbatim>\<open>return nil, err\<close> returns the
  empty list with the error.
\<close>

fun getRoutes_loop ::
  "('w, 'x) ElaServiceControllerImpl \<Rightarrow> 'x package \<Rightarrow> string \<Rightarrow> TrafficTarget list
    \<Rightarrow> RevisionRoute list \<Rightarrow> ('w, 'x) state \<Rightarrow> (RevisionRoute list \<times> error option) \<times> ('w, 'x) state" where
  "getRoutes_loop c p ns [] ret s = ((ret, None), s)"
| "getRoutes_loop c p ns (tt # tts) ret s =
     (case getRouteForTrafficTarget c p tt ns s of
        ((rr, Some err), s1) \<Rightarrow>
          (([], Some err),
           printf ''Failed to get a route for target %+v : %q'' [ArgTarget tt, ArgError err] s1)
      | ((rr, None), s1) \<Rightarrow> getRoutes_loop c p ns tts (ret @ [rr]) s1)"

definition getRoutes ::
  "('w, 'x) ElaServiceControllerImpl \<Rightarrow> 'x package \<Rightarrow> ElaService \<Rightarrow> ('w, 'x) state
    \<Rightarrow> (RevisionRoute list \<times> error option) \<times> ('w, 'x) state" where
  "getRoutes c p u s =
     getRoutes_loop c p (Namespace u) (Traffic (Rollout (Spec u))) []
       (printf ''Figuring out routes for ElaService: %s'' [ArgString (Name u)] s)"

text \<open>\<^verbatim>\<open>createOrUpdateRoutes\<close>, lines 387-425.\<close>

definition createOrUpdateRoutes ::
  "('w, 'x) ElaServiceControllerImpl \<Rightarrow> 'x package \<Rightarrow> ElaService \<Rightarrow> string \<Rightarrow> ('w, 'x) state
    \<Rightarrow> error option \<times> ('w, 'x) state" where
  "createOrUpdateRoutes c p u ns s =
     (case RouteRules c ns of
        None \<Rightarrow>
          (Some (errorString ''Couldn't get a routeClient''),
           printf ''Failed to create resource client'' [] s)
      | Some routeClient \<Rightarrow>
          (case getRoutes c p u s of
             ((routes, Some err), s1) \<Rightarrow>
               (Some err, printf ''Failed to get routes for %s : %q'' [ArgString (Name u), ArgError err] s1)
           | ((routes, None), s1) \<Rightarrow>
               if length routes = 0
               then (None, printf ''No routes were found for the service %q'' [ArgString (Name u)] s1)
               else
                 (let s2 = foldl (\<lambda>s' r. printf ''Adding a route to %q Weight: %d''
                                            [ArgString (Service r), ArgInt (Weight r)] s') s1 routes;
                      routeRuleName = GetElaIstioRouteRuleName p u
                  in case clientGet RouteRulesR ns routeClient routeRuleName s2 of
                       (Inl err, s3) \<Rightarrow>
                         if \<not> IsNotFound err then (Some err, s3)
                         else clientCreate RouteRulesR ns routeClient
                                (MakeElaServiceIstioRoutes p u ns routes) s3
                     | (Inr routeRules, s3) \<Rightarrow>
                         (case clientUpdate RouteRulesR ns routeClient
                                 (routeRules\<lparr>Spec := MakeElaServiceIstioSpec p u ns routes\<rparr>) s3 of
                            (Some err, s4) \<Rightarrow> (Some err, s4)
                          | (None, s4) \<Rightarrow> (None, s4)))))"

text \<open>
  \<^verbatim>\<open>syncHandler\<close>, lines 257-311. \<open>routeStep\<close> is the code from line 301 on, reached when
  the ingress step returned no error or an already-exists error.
\<close>

definition syncHandler ::
  "('w, 'x) ElaServiceControllerImpl \<Rightarrow> 'x package \<Rightarrow> string \<Rightarrow> ('w, 'x) state
    \<Rightarrow> error option \<times> ('w, 'x) state" where
  "syncHandler c p key s =
     (case SplitMetaNamespaceKey p key of
        Inl err \<Rightarrow> (None, emit (HandleError (errorString (''invalid resource key: '' @ key))) s)
      | Inr (namespace, name) \<Rightarrow>
          (case listerGet c namespace name s of
             (Inl err, s1) \<Rightarrow>
               if IsNotFound err
               then (None, emit (HandleError (errorString
                       (''elaservice '' @ [CHR 0x27] @ key @ [CHR 0x27]
                          @ '' in work queue no longer exists''))) s1)
               else (Some err, s1)
           | (Inr es, s1) \<Rightarrow>
               (let s2 = infof (''Running reconcile ElaService for %s'' @ [CHR 0x0A] @ ''%+v'' @ [CHR 0x0A])
                           [ArgString (Name es), ArgElaService es] s1;
                    s3 = printf ''Creating/Updating placeholder k8s services'' [] s2
                in case createPlaceholderService c p es namespace s3 of
                     (Some err, s4) \<Rightarrow> (Some err, s4)
                   | (None, s4) \<Rightarrow>
                       (let s5 = printf ''Creating or updating ingress rule'' [] s4;
                            routeStep = (\<lambda>s7.
                              case createOrUpdateRoutes c p es namespace
                                     (printf ''Creating istio route rules'' [] s7) of
                                (Some err, s8) \<Rightarrow>
                                  (Some err, printf ''Failed to create Routes: %s'' [ArgError err] s8)
                              | (None, s8) \<Rightarrow>
                                  (None, emit (RecorderEvent (Name es) EventTypeNormal
                                                 SuccessSynced MessageResourceSynced) s8))
                        in case createOrUpdateIngress c p es namespace s5 of
                             (Some err, s6) \<Rightarrow>
                               if \<not> IsAlreadyExists err
                               then (Some err, printf ''Failed to create ingress rule: %s'' [ArgError err] s6)
                               else routeStep s6
                           | (None, s6) \<Rightarrow> routeStep s6))))"

text \<open>
  \<^verbatim>\<open>processNextWorkItem\<close>, lines 187-236. The inner function literal returns \<open>err\<close>;
  the deferred \<^verbatim>\<open>c.workqueue.Done(obj)\<close> runs when it returns, before the error is handled.
\<close>

definition processNextWorkItem ::
  "('w, 'x) ElaServiceControllerImpl \<Rightarrow> 'x package \<Rightarrow> ('w, 'x) state \<Rightarrow> bool \<times> ('w, 'x) state" where
  "processNextWorkItem c p s =
     (case workqueueGet c s of
        ((obj, shutdown), s1) \<Rightarrow>
          if shutdown then (False, s1)
          else
            (case (case obj of
                     OtherItem v \<Rightarrow>
                       (None, emit (HandleError (errorString
                                (''expected string in workqueue but got '' @ v)))
                                (workqueueForget c obj s1))
                   | StringItem key \<Rightarrow>
                       (case syncHandler c p key s1 of
                          (Some err, s2) \<Rightarrow>
                            (Some (errorString (''error syncing '' @ [CHR 0x27] @ key @ [CHR 0x27]
                                                  @ '': '' @ Error err)), s2)
                        | (None, s2) \<Rightarrow>
                            (None, infof (''Successfully synced '%s'' @ [CHR 0x27]) [ArgString key]
                                     (workqueueForget c obj s2)))) of
               (Some err, s3) \<Rightarrow> (True, emit (HandleError err) (workqueueDone c obj s3))
             | (None, s3) \<Rightarrow> (True, workqueueDone c obj s3)))"

subsection \<open>Reading the trace\<close>

fun isWrite :: "'x event \<Rightarrow> bool" where
  "isWrite (ClientCreate k ns ob r) = True"
| "isWrite (ClientUpdate k ns ob r) = True"
| "isWrite (ClientDelete k ns n r) = True"
| "isWrite e = False"

definition clientWrites :: "'x event list \<Rightarrow> 'x event list" where
  "clientWrites tr = filter isWrite tr"

fun isQueueCall :: "'x event \<Rightarrow> bool" where
  "isQueueCall (WorkqueueGet obj shutdown) = True"
| "isQueueCall (WorkqueueDone obj) = True"
| "isQueueCall (WorkqueueForget obj) = True"
| "isQueueCall (WorkqueueAddRateLimited obj) = True"
| "isQueueCall e = False"

definition queueCalls :: "'x event list \<Rightarrow> 'x event list" where
  "queueCalls tr = filter isQueueCall tr"

text \<open>The events a route computation may leave: log lines and reads of templates and revisions.\<close>

fun isResolveEvent :: "'x event \<Rightarrow> bool" where
  "isResolveEvent (LogPrintf f as) = True"
| "isResolveEvent (ClientGet k ns n r) = (k = RevisionTemplatesR \<or> k = RevisionsR)"
| "isResolveEvent e = False"

text \<open>The events of the route step: those of the route computation and calls on the route-rule client.\<close>

fun isRouteStepEvent :: "'x event \<Rightarrow> bool" where
  "isRouteStepEvent (LogPrintf f as) = True"
| "isRouteStepEvent (ClientGet k ns n r) =
     (k = RevisionTemplatesR \<or> k = RevisionsR \<or> k = RouteRulesR)"
| "isRouteStepEvent (ClientCreate k ns ob r) = (k = RouteRulesR)"
| "isRouteStepEvent (ClientUpdate k ns ob r) = (k = RouteRulesR)"
| "isRouteStepEvent e = False"

text \<open>A fetch of a revision template or of a revision that returned the error \<open>err\<close>.\<close>

fun isFailedFetch :: "error \<Rightarrow> 'x event \<Rightarrow> bool" where
  "isFailedFetch err (ClientGet k ns n r) =
     ((k = RevisionTemplatesR \<or> k = RevisionsR) \<and> r = Some err)"
| "isFailedFetch err e = False"

text \<open>An update of anything but the route-rule object, or a delete of anything.\<close>

fun isOverwriteOrDelete :: "'x event \<Rightarrow> bool" where
  "isOverwriteOrDelete (ClientUpdate k ns ob r) = (k \<noteq> RouteRulesR)"
| "isOverwriteOrDelete (ClientDelete k ns n r) = True"
| "isOverwriteOrDelete e = False"

fun isDelete :: "'x event \<Rightarrow> bool" where
  "isDelete (ClientDelete k ns n r) = True"
| "isDelete e = False"

fun isUpdateOf :: "Resource \<Rightarrow> 'x event \<Rightarrow> bool" where
  "isUpdateOf k' (ClientUpdate k ns ob r) = (k = k')"
| "isUpdateOf k' e = False"

subsection \<open>Route resolution as the specification words it\<close>

text \<open>
  The revision a traffic target stands for in cluster state \<open>w\<close>: through the template's
  \<^verbatim>\<open>Latest\<close> when a template is set, else the \<^verbatim>\<open>Revision\<close> field; and the route made of a
  resolved revision. The controller's \<open>getRouteForTrafficTarget\<close> is compared with these.
\<close>

definition spec_resolve ::
  "('w, 'x) ElaServiceControllerImpl \<Rightarrow> string \<Rightarrow> TrafficTarget \<Rightarrow> 'w \<Rightarrow> error + Revision" where
  "spec_resolve c ns tt w =
     (if RevisionTemplate tt \<noteq> []
      then (case Get (RevisionTemplates c ns) (RevisionTemplate tt) w of
              Inl e \<Rightarrow> Inl e
            | Inr rt \<Rightarrow> Get (Revisions c ns) (Latest (Status rt)) w)
      else Get (Revisions c ns) (Revision tt) w)"

definition spec_route :: "'x package \<Rightarrow> string \<Rightarrow> TrafficTarget \<Rightarrow> Revision \<Rightarrow> RevisionRoute" where
  "spec_route p ns tt revision =
     \<lparr>Service = ServiceName (Status revision) @ ''.'' @ GetElaNamespaceName p ns,
      Weight = Percent tt\<rparr>"

subsection \<open>An in-memory cluster\<close>

text \<open>
  A cluster held in memory, to run the controller on concrete inputs: each kind is a list
  of objects keyed by namespace and name, the newest entry first. \<open>Get\<close> answers not-found
  for a missing key, \<open>Create\<close> already-exists for a present one, \<open>Update\<close> not-found for a
  missing one. The queue hands out its pending items in order and reports shutdown when
  none is left.
\<close>

record 'x cluster =
  elaservices :: "((string \<times> string) \<times> ElaService) list"
  services :: "((string \<times> string) \<times> ('x, unit) Object) list"
  ingresses :: "((string \<times> string) \<times> ('x, unit) Object) list"
  revisiontemplates :: "((string \<times> string) \<times> RevisionTemplate) list"
  revisions :: "((string \<times> string) \<times> Revision) list"
  routerules :: "((string \<times> string) \<times> ('x, unit) Object) list"
  pending :: "item list"

definition memGet ::
  "string \<Rightarrow> ((string \<times> string) \<times> 'o) list \<Rightarrow> string \<Rightarrow> string \<Rightarrow> error + 'o" where
  "memGet kind objs ns name =
     (case map_of objs (ns, name) of
        None \<Rightarrow> Inl (StatusError StatusReasonNotFound (kind @ '' '' @ name @ '' not found''))
      | Some ob \<Rightarrow> Inr ob)"

definition memClient ::
  "string \<Rightarrow> ('c \<Rightarrow> ((string \<times> string) \<times> ('s, 't) Object) list)
    \<Rightarrow> ((((string \<times> string) \<times> ('s, 't) Object) list \<Rightarrow> ((string \<times> string) \<times> ('s, 't) Object) list) \<Rightarrow> 'c \<Rightarrow> 'c)
    \<Rightarrow> string \<Rightarrow> ('c, ('s, 't) Object) ResourceInterface" where
  "memClient kind sel upd ns =
     \<lparr>Get = (\<lambda>name w. memGet kind (sel w) ns name),
      Create = (\<lambda>ob w.
        case map_of (sel w) (ns, Name ob) of
          Some old \<Rightarrow>
            (Some (StatusError StatusReasonAlreadyExists (kind @ '' '' @ Name ob @ '' already exists'')), w)
        | None \<Rightarrow> (None, upd (\<lambda>objs. ((ns, Name ob), ob) # objs) w)),
      Update = (\<lambda>ob w.
        case map_of (sel w) (ns, Name ob) of
          None \<Rightarrow> (Some (StatusError StatusReasonNotFound (kind @ '' '' @ Name ob @ '' not found'')), w)
        | Some old \<Rightarrow> (None, upd (\<lambda>objs. ((ns, Name ob), ob) # objs) w))\<rparr>"

definition memQueue :: "'x cluster RateLimitingInterface" where
  "memQueue =
     \<lparr>GetItem = (\<lambda>w. case pending w of
                        [] \<Rightarrow> ((StringItem [], True), w)
                      | obj # rest \<Rightarrow> ((obj, False), w\<lparr>pending := rest\<rparr>)),
      Done = (\<lambda>obj w. w),
      Forget = (\<lambda>obj w. w),
      AddRateLimited = (\<lambda>obj w. w\<lparr>pending := pending w @ [obj]\<rparr>)\<rparr>"

definition memController :: "('x cluster, 'x) ElaServiceControllerImpl" where
  "memController =
     \<lparr>Services = memClient ''services'' services services_update,
      Ingresses = memClient ''ingresses'' ingresses ingresses_update,
      RevisionTemplates = memClient ''revisiontemplates'' revisiontemplates revisiontemplates_update,
      Revisions = memClient ''revisions'' revisions revisions_update,
      RouteRules = (\<lambda>ns. Some (memClient ''routerules'' routerules routerules_update ns)),
      lister = (\<lambda>ns name w. memGet ''elaservice'' (elaservices w) ns name),
      workqueue = memQueue\<rparr>"

text \<open>
  A client whose ingress \<open>Create\<close> always answers already-exists, as when another writer
  creates the ingress between the controller's \<open>Get\<close> and its \<open>Create\<close>.
\<close>

definition racingController :: "('x cluster, 'x) ElaServiceControllerImpl" where
  "racingController =
     memController\<lparr>Ingresses := (\<lambda>ns.
        (memClient ''ingresses'' ingresses ingresses_update ns)
          \<lparr>Create := (\<lambda>ob w.
              (Some (StatusError StatusReasonAlreadyExists
                       (''ingresses '' @ Name ob @ '' already exists'')), w))\<rparr>)\<rparr>"

text \<open>A lister that times out on every read.\<close>

definition timeoutController :: "('x cluster, 'x) ElaServiceControllerImpl" where
  "timeoutController =
     memController\<lparr>lister := (\<lambda>ns name w.
        Inl (StatusError StatusReasonServerTimeout ''the server timed out''))\<rparr>"

text \<open>
  A sample of the functions the controller file leaves to the rest of the repository and
  to its libraries, for the concrete runs only. \<open>splitKey\<close> follows client-go: one part is
  a name without namespace, two parts are namespace and name, more is an error.
\<close>

fun splitSlash :: "string \<Rightarrow> string list" where
  "splitSlash [] = [[]]"
| "splitSlash (ch # cs) =
     (if ch = CHR ''/'' then [] # splitSlash cs
      else (case splitSlash cs of
              [] \<Rightarrow> [[ch]]
            | part # parts \<Rightarrow> (ch # part) # parts))"

definition splitKey :: "string \<Rightarrow> error + (string \<times> string)" where
  "splitKey key =
     (case splitSlash key of
        [name] \<Rightarrow> Inr ([], name)
      | [namespace, name] \<Rightarrow> Inr (namespace, name)
      | parts \<Rightarrow> Inl (errorString (''unexpected key format: '' @ key)))"

definition samplePackage :: "(RevisionRoute list) package" where
  "samplePackage =
     \<lparr>SplitMetaNamespaceKey = splitKey,
      MetaNamespaceKeyFunc = (\<lambda>u. Inr (if Namespace u = [] then Name u else Namespace u @ ''/'' @ Name u)),
      NewControllerRef = (\<lambda>u. \<lparr>Kind = ''ElaService'', RefName = Name u, Controller = True\<rparr>),
      GetElaNamespaceName = (\<lambda>ns. ns),
      GetElaK8SIngressName = (\<lambda>u. Name u @ ''-ela-ingress''),
      GetElaIstioRouteRuleName = (\<lambda>u. Name u @ ''-istio''),
      MakeElaServiceK8SService = (\<lambda>u.
        \<lparr>Name = Name u @ ''-service'', Namespace = Namespace u, OwnerReferences = [],
         Spec = [], Status = ()\<rparr>),
      MakeElaServiceIngress = (\<lambda>u ns.
        \<lparr>Name = Name u @ ''-ela-ingress'', Namespace = ns, OwnerReferences = [],
         Spec = [], Status = ()\<rparr>),
      MakeElaServiceIstioRoutes = (\<lambda>u ns routes.
        \<lparr>Name = Name u @ ''-istio'', Namespace = ns,
         OwnerReferences = [\<lparr>Kind = ''ElaService'', RefName = Name u, Controller = True\<rparr>],
         Spec = routes, Status = ()\<rparr>),
      MakeElaServiceIstioSpec = (\<lambda>u ns routes. routes)\<rparr>"

text \<open>
  The scenario of the specification: \<^verbatim>\<open>svc-a\<close> in namespace \<^verbatim>\<open>default\<close> splits its traffic
  90 to 10 between \<^verbatim>\<open>rev-1\<close> and \<^verbatim>\<open>rev-2\<close>, whose services are \<^verbatim>\<open>rev-1-svc\<close> and
  \<^verbatim>\<open>rev-2-svc\<close>.
\<close>

definition svcA :: ElaService where
  "svcA =
     \<lparr>Name = ''svc-a'', Namespace = ''default'', OwnerReferences = [],
      Spec = \<lparr>Rollout = \<lparr>Traffic =
        [\<lparr>Revision = ''rev-1'', RevisionTemplate = [], Percent = 90\<rparr>,
         \<lparr>Revision = ''rev-2'', RevisionTemplate = [], Percent = 10\<rparr>]\<rparr>\<rparr>,
      Status = ()\<rparr>"

definition mkRevision :: "string \<Rightarrow> string \<Rightarrow> (string \<times> string) \<times> Revision" where
  "mkRevision name svc =
     ((''default'', name),
      \<lparr>Name = name, Namespace = ''default'', OwnerReferences = [], Spec = (),
       Status = \<lparr>ServiceName = svc\<rparr>\<rparr>)"

definition clusterA :: "(RevisionRoute list) cluster" where
  "clusterA =
     \<lparr>elaservices = [((''default'', ''svc-a''), svcA)],
      services = [], ingresses = [], revisiontemplates = [],
      revisions = [mkRevision ''rev-1'' ''rev-1-svc'', mkRevision ''rev-2'' ''rev-2-svc''],
      routerules = [],
      pending = [StringItem ''default/svc-a'']\<rparr>"

definition start :: "'w \<Rightarrow> ('w, 'x) state" where
  "start w = \<lparr>world = w, trace = []\<rparr>"

text \<open>The same cluster without the two revisions: no target of \<^verbatim>\<open>svc-a\<close> resolves.\<close>

definition clusterBroken :: "(RevisionRoute list) cluster" where
  "clusterBroken = clusterA\<lparr>revisions := []\<rparr>"

text \<open>
  The cluster with a route-rule object already there: a stale spec, and an owner reference
  to tell the rest of the object by.
\<close>

definition staleRule :: "(RevisionRoute list, unit) Object" where
  "staleRule =
     \<lparr>Name = ''svc-a-istio'', Namespace = ''default'',
      OwnerReferences = [\<lparr>Kind = ''ElaService'', RefName = ''svc-a'', Controller = True\<rparr>],
      Spec = [\<lparr>Service = ''rev-0-svc.default'', Weight = 100\<rparr>], Status = ()\<rparr>"

definition clusterB :: "(RevisionRoute list) cluster" where
  "clusterB = clusterA\<lparr>routerules := [((''default'', ''svc-a-istio''), staleRule)]\<rparr>"

text \<open>
  A target with both fields set, and a cluster in which the template \<^verbatim>\<open>tmpl\<close> points at
  \<^verbatim>\<open>rev-2\<close>.
\<close>

definition bothSet :: TrafficTarget where
  "bothSet = \<lparr>Revision = ''rev-1'', RevisionTemplate = ''tmpl'', Percent = 100\<rparr>"

definition clusterT :: "(RevisionRoute list) cluster" where
  "clusterT =
     clusterA\<lparr>revisiontemplates :=
       [((''default'', ''tmpl''),
         \<lparr>Name = ''tmpl'', Namespace = ''default'', OwnerReferences = [], Spec = (),
          Status = \<lparr>Latest = ''rev-2''\<rparr>\<rparr>)]\<rparr>"

text \<open>A client whose service \<open>Create\<close> is always refused with a timeout.\<close>

definition refusingController :: "('x cluster, 'x) ElaServiceControllerImpl" where
  "refusingController =
     memController\<lparr>Services := (\<lambda>ns.
        (memClient ''services'' services services_update ns)
          \<lparr>Create := (\<lambda>ob w.
              (Some (StatusError StatusReasonServerTimeout ''the server timed out''), w))\<rparr>)\<rparr>"

text \<open>The events a call appended to the trace, read off the states before and after it.\<close>

definition emitted :: "('w, 'x) state \<Rightarrow> ('w, 'x) state \<Rightarrow> 'x event list" where
  "emitted s s' = drop (length (trace s)) (trace s')"

section \<open>Properties\<close>

subsection \<open>Route resolution\<close>

lemmas call_defs = clientGet_def clientCreate_def clientUpdate_def listerGet_def emit_def
  printf_def infof_def errOf_def

lemmas step_defs = syncHandler_def createPlaceholderService_def createOrUpdateIngress_def
  createOrUpdateRoutes_def getRoutes_def getRouteForTrafficTarget_def Let_def

lemmas queue_defs = processNextWorkItem_def workqueueGet_def workqueueDone_def workqueueForget_def
  workqueueAddRateLimited_def

lemmas mem_defs = memController_def memClient_def memGet_def memQueue_def samplePackage_def
  clusterA_def svcA_def mkRevision_def start_def splitKey_def clusterBroken_def clusterB_def
  staleRule_def clusterT_def bothSet_def racingController_def timeoutController_def
  refusingController_def

lemma list_all_resolve_route: "list_all isResolveEvent ev \<Longrightarrow> list_all isRouteStepEvent ev"
proof (induction ev)
  case Nil then show ?case by simp
next
  case (Cons e ev) then show ?case by (cases e) auto
qed

lemma getRoute_fst:
  "fst (getRouteForTrafficTarget c p tt ns s) =
     (case spec_resolve c ns tt (world s) of
        Inl e \<Rightarrow> (\<lparr>Service = [], Weight = 0\<rparr>, Some e)
      | Inr revision \<Rightarrow> (spec_route p ns tt revision, None))"
  by (simp add: getRouteForTrafficTarget_def spec_resolve_def spec_route_def call_defs Let_def
      split: sum.splits)

lemma getRoute_world: "world (snd (getRouteForTrafficTarget c p tt ns s)) = world s"
  by (simp add: getRouteForTrafficTarget_def call_defs Let_def split: sum.splits)

lemma getRoute_trace:
  "\<exists>ev. trace (snd (getRouteForTrafficTarget c p tt ns s)) = trace s @ ev
        \<and> list_all isResolveEvent ev
        \<and> (\<forall>err. (\<exists>e \<in> set ev. isFailedFetch err e)
                 = (snd (fst (getRouteForTrafficTarget c p tt ns s)) = Some err))"
  by (auto simp add: getRouteForTrafficTarget_def call_defs Let_def split: sum.splits)

lemma getRoutes_loop_world: "world (snd (getRoutes_loop c p ns tts ret s)) = world s"
proof (induction tts arbitrary: ret s)
  case Nil then show ?case by simp
next
  case (Cons tt tts)
  show ?case
  proof (cases "getRouteForTrafficTarget c p tt ns s")
    case (Pair r s1)
    with getRoute_world[of c p tt ns s] have w: "world s1 = world s" by simp
    obtain rr eo where r: "r = (rr, eo)" by (cases r)
    show ?thesis
      using Pair r w Cons.IH[of "ret @ [rr]" s1]
      by (cases eo) (simp_all add: printf_def emit_def)
  qed
qed

lemma getRoutes_loop_resolved:
  "map (\<lambda>tt. spec_resolve c ns tt (world s)) tts = map Inr revs \<Longrightarrow>
   fst (getRoutes_loop c p ns tts ret s) = (ret @ map2 (spec_route p ns) tts revs, None)"
proof (induction tts arbitrary: ret s revs)
  case Nil then show ?case by simp
next
  case (Cons tt tts)
  from Cons.prems obtain rv rvs where revs: "revs = rv # rvs"
    and hd: "spec_resolve c ns tt (world s) = Inr rv"
    and tl: "map (\<lambda>tt. spec_resolve c ns tt (world s)) tts = map Inr rvs"
    by (cases revs) auto
  obtain r s1 where step: "getRouteForTrafficTarget c p tt ns s = (r, s1)"
    by (cases "getRouteForTrafficTarget c p tt ns s")
  from getRoute_fst[of c p tt ns s] step hd have r: "r = (spec_route p ns tt rv, None)" by simp
  from getRoute_world[of c p tt ns s] step have w: "world s1 = world s" by simp
  from Cons.IH[of s1 rvs "ret @ [spec_route p ns tt rv]"] tl w
  have "fst (getRoutes_loop c p ns tts (ret @ [spec_route p ns tt rv]) s1)
          = ((ret @ [spec_route p ns tt rv]) @ map2 (spec_route p ns) tts rvs, None)" by simp
  with step r revs show ?case by simp
qed

lemma getRoutes_loop_failed:
  "\<exists>tt \<in> set tts. isl (spec_resolve c ns tt (world s)) \<Longrightarrow>
   \<exists>err. fst (getRoutes_loop c p ns tts ret s) = ([], Some err)
        \<and> (\<exists>tt \<in> set tts. spec_resolve c ns tt (world s) = Inl err)"
proof (induction tts arbitrary: ret s)
  case Nil then show ?case by simp
next
  case (Cons tt tts)
  obtain r s1 where step: "getRouteForTrafficTarget c p tt ns s = (r, s1)"
    by (cases "getRouteForTrafficTarget c p tt ns s")
  from getRoute_world[of c p tt ns s] step have w: "world s1 = world s" by simp
  show ?case
  proof (cases "spec_resolve c ns tt (world s)")
    case (Inl err)
    with getRoute_fst[of c p tt ns s] step have "r = (\<lparr>Service = [], Weight = 0\<rparr>, Some err)" by simp
    with step Inl show ?thesis by auto
  next
    case (Inr rv)
    with getRoute_fst[of c p tt ns s] step have r: "r = (spec_route p ns tt rv, None)" by simp
    from Inr Cons.prems have "\<exists>tt \<in> set tts. isl (spec_resolve c ns tt (world s1))"
      using w by auto
    from Cons.IH[OF this, of "ret @ [spec_route p ns tt rv]"] w step r
    show ?thesis by auto
  qed
qed

lemma getRoutes_loop_trace:
  "\<exists>ev. trace (snd (getRoutes_loop c p ns tts ret s)) = trace s @ ev
        \<and> list_all isResolveEvent ev
        \<and> (\<forall>err. (\<exists>e \<in> set ev. isFailedFetch err e)
                 = (snd (fst (getRoutes_loop c p ns tts ret s)) = Some err))"
proof (induction tts arbitrary: ret s)
  case Nil then show ?case by simp
next
  case (Cons tt tts)
  obtain rr eo s1 where step: "getRouteForTrafficTarget c p tt ns s = ((rr, eo), s1)"
    by (cases "getRouteForTrafficTarget c p tt ns s") auto
  from getRoute_trace[of c p tt ns s] step obtain ev1 where
    t1: "trace s1 = trace s @ ev1" and a1: "list_all isResolveEvent ev1"
    and f1: "\<And>err. (\<exists>e \<in> set ev1. isFailedFetch err e) = (eo = Some err)" by auto
  show ?case
  proof (cases eo)
    case (Some err)
    let ?l = "LogPrintf ''Failed to get a route for target %+v : %q'' [ArgTarget tt, ArgError err]"
    have "trace (snd (getRoutes_loop c p ns (tt # tts) ret s)) = trace s @ (ev1 @ [?l])"
      using step Some t1 by (simp add: printf_def emit_def)
    moreover have "list_all isResolveEvent (ev1 @ [?l])" using a1 by simp
    moreover have "\<forall>err'. (\<exists>e \<in> set (ev1 @ [?l]). isFailedFetch err' e)
        = (snd (fst (getRoutes_loop c p ns (tt # tts) ret s)) = Some err')"
      using step Some f1 by auto
    ultimately show ?thesis by blast
  next
    case None
    from Cons.IH[of "ret @ [rr]" s1] obtain ev2 where
      t2: "trace (snd (getRoutes_loop c p ns tts (ret @ [rr]) s1)) = trace s1 @ ev2"
      and a2: "list_all isResolveEvent ev2"
      and f2: "\<And>err. (\<exists>e \<in> set ev2. isFailedFetch err e)
                 = (snd (fst (getRoutes_loop c p ns tts (ret @ [rr]) s1)) = Some err)" by auto
    have "trace (snd (getRoutes_loop c p ns (tt # tts) ret s)) = trace s @ (ev1 @ ev2)"
      using step None t1 t2 by simp
    moreover have "list_all isResolveEvent (ev1 @ ev2)" using a1 a2 by simp
    moreover have "\<forall>err'. (\<exists>e \<in> set (ev1 @ ev2). isFailedFetch err' e)
        = (snd (fst (getRoutes_loop c p ns (tt # tts) ret s)) = Some err')"
    proof (intro allI)
      fix err'
      have "(\<exists>e \<in> set (ev1 @ ev2). isFailedFetch err' e)
          = ((\<exists>e \<in> set ev1. isFailedFetch err' e) \<or> (\<exists>e \<in> set ev2. isFailedFetch err' e))"
        by auto
      also have "\<dots> = (snd (fst (getRoutes_loop c p ns tts (ret @ [rr]) s1)) = Some err')"
        using f1[of err'] f2[of err'] None by simp
      also have "\<dots> = (snd (fst (getRoutes_loop c p ns (tt # tts) ret s)) = Some err')"
        using step None by simp
      finally show "(\<exists>e \<in> set (ev1 @ ev2). isFailedFetch err' e)
          = (snd (fst (getRoutes_loop c p ns (tt # tts) ret s)) = Some err')" .
    qed
    ultimately show ?thesis by blast
  qed
qed

lemma map_Weight_spec_route:
  "length tts = length revs \<Longrightarrow>
   map Weight (map2 (spec_route p ns) tts revs) = map Percent tts"
  by (induction tts revs rule: list_induct2) (simp_all add: spec_route_def)

text \<open>
  C3. When every traffic target of the rollout resolves, \<open>revs\<close> being the resolved
  revisions in order, \<open>getRoutes\<close> returns one route per target, in the order of the
  targets, with no error: the weight of each route is the \<open>Percent\<close> of its target,
  unchanged, and its service is the resolved revision's \<open>ServiceName\<close>, a dot, and the
  namespace-scoped suffix. The witness is the scenario of the specification: targets
  \<^verbatim>\<open>rev-1\<close> at 90 and \<^verbatim>\<open>rev-2\<close> at 10 give \<^verbatim>\<open>rev-1-svc.<ns>\<close> at 90 and \<^verbatim>\<open>rev-2-svc.<ns>\<close>
  at 10.
\<close>

theorem getRoutes_weights_and_services:
  assumes "map (\<lambda>tt. spec_resolve c (Namespace u) tt (world s)) (Traffic (Rollout (Spec u)))
             = map Inr revs"
  shows "fst (getRoutes c p u s) =
           (map2 (\<lambda>tt revision.
                    \<lparr>Service = ServiceName (Status revision) @ ''.'' @ GetElaNamespaceName p (Namespace u),
                     Weight = Percent tt\<rparr>)
                 (Traffic (Rollout (Spec u))) revs, None)
       \<and> length (fst (fst (getRoutes c p u s))) = length (Traffic (Rollout (Spec u)))
       \<and> map Weight (fst (fst (getRoutes c p u s))) = map Percent (Traffic (Rollout (Spec u)))"
proof -
  let ?tts = "Traffic (Rollout (Spec u))"
  let ?s0 = "printf ''Figuring out routes for ElaService: %s'' [ArgString (Name u)] s"
  have w: "world ?s0 = world s" by (simp add: printf_def emit_def)
  have len: "length revs = length ?tts" using assms by (metis length_map)
  from getRoutes_loop_resolved[of c "Namespace u" ?s0 ?tts revs p "[]"] assms w
  have r: "fst (getRoutes c p u s) = (map2 (spec_route p (Namespace u)) ?tts revs, None)"
    by (simp add: getRoutes_def)
  have m: "map Weight (map2 (spec_route p (Namespace u)) ?tts revs) = map Percent ?tts"
    by (rule map_Weight_spec_route) (simp add: len)
  have "fst (fst (getRoutes c p u s)) = map2 (spec_route p (Namespace u)) ?tts revs"
    using r by simp
  with m len have "length (fst (fst (getRoutes c p u s))) = length ?tts"
    and "map Weight (fst (fst (getRoutes c p u s))) = map Percent ?tts" by simp_all
  moreover have "spec_route p (Namespace u) = (\<lambda>tt revision.
       \<lparr>Service = ServiceName (Status revision) @ ''.'' @ GetElaNamespaceName p (Namespace u),
        Weight = Percent tt\<rparr>)" by (intro ext) (simp add: spec_route_def)
  ultimately show ?thesis using r by simp
qed

theorem getRoutes_weights_and_services_witness:
  "map (\<lambda>tt. spec_resolve memController (Namespace svcA) tt clusterA) (Traffic (Rollout (Spec svcA)))
     = map Inr [snd (mkRevision ''rev-1'' ''rev-1-svc''), snd (mkRevision ''rev-2'' ''rev-2-svc'')]
   \<and> fst (getRoutes memController samplePackage svcA (start clusterA))
     = ([\<lparr>Service = ''rev-1-svc.default'', Weight = 90\<rparr>,
         \<lparr>Service = ''rev-2-svc.default'', Weight = 10\<rparr>], None)"
  using getRoutes_weights_and_services[where c = memController and u = svcA and s = "start clusterA"
      and p = samplePackage
      and revs = "[snd (mkRevision ''rev-1'' ''rev-1-svc''), snd (mkRevision ''rev-2'' ''rev-2-svc'')]"]
  by (simp add: mem_defs spec_resolve_def)

subsection \<open>The route step\<close>

lemma emitted_append: "trace s' = trace s @ ev \<Longrightarrow> emitted s s' = ev"
  by (simp add: emitted_def)

lemma clientWrites_resolve: "list_all isResolveEvent ev \<Longrightarrow> clientWrites ev = []"
proof (induction ev)
  case Nil then show ?case by (simp add: clientWrites_def)
next
  case (Cons e ev) then show ?case by (cases e) (auto simp: clientWrites_def)
qed

lemma foldl_trace:
  "foldl (\<lambda>s' r. s'\<lparr>trace := trace s' @ [h r]\<rparr>) s rs = s\<lparr>trace := trace s @ map h rs\<rparr>"
  by (induction rs arbitrary: s) simp_all

lemma getRoutes_world: "world (snd (getRoutes c p u s)) = world s"
  by (simp add: getRoutes_def getRoutes_loop_world printf_def emit_def)

lemma getRoutes_trace:
  "\<exists>ev. trace (snd (getRoutes c p u s)) = trace s @ ev
        \<and> list_all isResolveEvent ev
        \<and> (\<forall>err. (\<exists>e \<in> set ev. isFailedFetch err e) = (snd (fst (getRoutes c p u s)) = Some err))"
proof -
  let ?l = "LogPrintf ''Figuring out routes for ElaService: %s'' [ArgString (Name u)]"
  let ?s0 = "printf ''Figuring out routes for ElaService: %s'' [ArgString (Name u)] s"
  from getRoutes_loop_trace[of c p "Namespace u" "Traffic (Rollout (Spec u))" "[]" ?s0]
  obtain ev where t: "trace (snd (getRoutes c p u s)) = trace ?s0 @ ev"
    and a: "list_all isResolveEvent ev"
    and f: "\<And>err. (\<exists>e \<in> set ev. isFailedFetch err e) = (snd (fst (getRoutes c p u s)) = Some err)"
    by (auto simp: getRoutes_def)
  have "trace (snd (getRoutes c p u s)) = trace s @ (?l # ev)"
    using t by (simp add: printf_def emit_def)
  moreover have "list_all isResolveEvent (?l # ev)" using a by simp
  moreover have "\<forall>err. (\<exists>e \<in> set (?l # ev). isFailedFetch err e)
                  = (snd (fst (getRoutes c p u s)) = Some err)" using f by simp
  ultimately show ?thesis by blast
qed

lemma getRoutes_failed:
  assumes "\<exists>tt \<in> set (Traffic (Rollout (Spec u))). isl (spec_resolve c (Namespace u) tt (world s))"
  shows "\<exists>err. fst (getRoutes c p u s) = ([], Some err)
           \<and> (\<exists>tt \<in> set (Traffic (Rollout (Spec u))). spec_resolve c (Namespace u) tt (world s) = Inl err)"
proof -
  let ?s0 = "printf ''Figuring out routes for ElaService: %s'' [ArgString (Name u)] s"
  have w: "world ?s0 = world s" by (simp add: printf_def emit_def)
  from getRoutes_loop_failed[of "Traffic (Rollout (Spec u))" c "Namespace u" ?s0 p "[]"] assms w
  show ?thesis by (simp add: getRoutes_def)
qed

lemma createOrUpdateRoutes_trace:
  "\<exists>ev. trace (snd (createOrUpdateRoutes c p u ns s)) = trace s @ ev
        \<and> list_all isRouteStepEvent ev
        \<and> (\<forall>err. (\<exists>e \<in> set ev. isFailedFetch err e)
               \<longrightarrow> fst (createOrUpdateRoutes c p u ns s) = Some err)"
proof (cases "RouteRules c ns")
  case None
  then show ?thesis by (simp add: createOrUpdateRoutes_def printf_def emit_def)
next
  case (Some rc)
  obtain routes eo s1 where g: "getRoutes c p u s = ((routes, eo), s1)"
    by (cases "getRoutes c p u s") auto
  from getRoutes_trace[of c p u s] g obtain ev1 where
    t1: "trace s1 = trace s @ ev1" and a1: "list_all isResolveEvent ev1"
    and f1: "\<And>err. (\<exists>e \<in> set ev1. isFailedFetch err e) = (eo = Some err)" by auto
  have r1: "list_all isRouteStepEvent ev1" using a1 by (rule list_all_resolve_route)
  have "\<exists>ev2. trace (snd (createOrUpdateRoutes c p u ns s)) = trace s1 @ ev2
          \<and> list_all isRouteStepEvent ev2
          \<and> (\<forall>err. \<forall>e \<in> set ev2. \<not> isFailedFetch err e)
          \<and> (eo \<noteq> None \<longrightarrow> fst (createOrUpdateRoutes c p u ns s) = eo)"
    using Some g
    by (auto simp: createOrUpdateRoutes_def call_defs Let_def foldl_trace list_all_iff
        split: option.splits sum.splits prod.splits)
  then obtain ev2 where t2: "trace (snd (createOrUpdateRoutes c p u ns s)) = trace s1 @ ev2"
    and a2: "list_all isRouteStepEvent ev2"
    and f2: "\<And>err e. e \<in> set ev2 \<Longrightarrow> \<not> isFailedFetch err e"
    and e2: "eo \<noteq> None \<Longrightarrow> fst (createOrUpdateRoutes c p u ns s) = eo" by blast
  have "trace (snd (createOrUpdateRoutes c p u ns s)) = trace s @ (ev1 @ ev2)"
    using t1 t2 by simp
  moreover have "list_all isRouteStepEvent (ev1 @ ev2)" using r1 a2 by simp
  moreover have "\<forall>err. (\<exists>e \<in> set (ev1 @ ev2). isFailedFetch err e)
               \<longrightarrow> fst (createOrUpdateRoutes c p u ns s) = Some err"
  proof (intro allI impI)
    fix err assume "\<exists>e \<in> set (ev1 @ ev2). isFailedFetch err e"
    with f2 have "\<exists>e \<in> set ev1. isFailedFetch err e" by auto
    with f1 have "eo = Some err" by simp
    with e2 show "fst (createOrUpdateRoutes c p u ns s) = Some err" by simp
  qed
  ultimately show ?thesis by blast
qed

lemma createOrUpdateRoutes_extends:
  "trace (snd (createOrUpdateRoutes c p u ns s))
     = trace s @ emitted s (snd (createOrUpdateRoutes c p u ns s))"
  using createOrUpdateRoutes_trace[of c p u ns s] by (auto simp: emitted_def)

lemma createOrUpdateRoutes_event:
  "e \<in> set (emitted s (snd (createOrUpdateRoutes c p u ns s))) \<Longrightarrow> isRouteStepEvent e"
  using createOrUpdateRoutes_trace[of c p u ns s] by (auto simp: emitted_def list_all_iff)

lemma createOrUpdateRoutes_failed_fetch:
  "e \<in> set (emitted s (snd (createOrUpdateRoutes c p u ns s))) \<Longrightarrow> isFailedFetch err e
     \<Longrightarrow> fst (createOrUpdateRoutes c p u ns s) = Some err"
proof -
  assume m: "e \<in> set (emitted s (snd (createOrUpdateRoutes c p u ns s)))" and f: "isFailedFetch err e"
  from createOrUpdateRoutes_trace[of c p u ns s] obtain ev where
    t: "trace (snd (createOrUpdateRoutes c p u ns s)) = trace s @ ev"
    and i: "(\<exists>e \<in> set ev. isFailedFetch err e) \<longrightarrow> fst (createOrUpdateRoutes c p u ns s) = Some err"
    by blast
  from t have "emitted s (snd (createOrUpdateRoutes c p u ns s)) = ev" by (rule emitted_append)
  with m f i show ?thesis by auto
qed

subsection \<open>The Sync Handler\<close>

lemma routeStep_plain:
  "isRouteStepEvent e \<Longrightarrow> \<not> isQueueCall e \<and> \<not> isOverwriteOrDelete e"
  by (cases e) auto

lemma createPlaceholderService_trace:
  "\<exists>ev. trace (snd (createPlaceholderService c p u ns s)) = trace s @ ev
     \<and> (\<forall>e \<in> set ev. \<not> isQueueCall e \<and> \<not> isOverwriteOrDelete e \<and> (\<forall>err. \<not> isFailedFetch err e))
     \<and> (\<forall>k n ob err. ClientCreate k n ob (Some err) \<in> set ev \<longrightarrow>
           k = ServicesR \<and> fst (createPlaceholderService c p u ns s)
                             = (if IsAlreadyExists err then None else Some err))"
  by (auto simp: createPlaceholderService_def call_defs Let_def split: option.splits prod.splits)

lemma createOrUpdateIngress_trace:
  "\<exists>ev. trace (snd (createOrUpdateIngress c p u ns s)) = trace s @ ev
     \<and> (\<forall>e \<in> set ev. \<not> isQueueCall e \<and> \<not> isOverwriteOrDelete e \<and> (\<forall>err. \<not> isFailedFetch err e))
     \<and> (\<forall>k n ob err. ClientCreate k n ob (Some err) \<in> set ev \<longrightarrow>
           k = IngressesR \<and> fst (createOrUpdateIngress c p u ns s) = Some err)"
  by (auto simp: createOrUpdateIngress_def call_defs Let_def split: option.splits prod.splits sum.splits)


lemma syncHandler_trace:
  "\<exists>ev. trace (snd (syncHandler c p key s)) = trace s @ ev
     \<and> (\<forall>e \<in> set ev. \<not> isQueueCall e \<and> \<not> isOverwriteOrDelete e)
     \<and> (\<forall>err. (\<exists>e \<in> set ev. isFailedFetch err e) \<longrightarrow> fst (syncHandler c p key s) = Some err)
     \<and> (\<forall>k n ob err. ClientCreate k n ob (Some err) \<in> set ev \<and> (k = ServicesR \<or> k = IngressesR)
            \<and> \<not> IsAlreadyExists err \<longrightarrow> fst (syncHandler c p key s) = Some err)
     \<and> (\<forall>n ob err. ClientCreate ServicesR n ob (Some err) \<in> set ev \<and> IsAlreadyExists err
            \<longrightarrow> LogPrintf ''Creating or updating ingress rule'' [] \<in> set ev)
     \<and> (\<forall>n ob err. ClientCreate IngressesR n ob (Some err) \<in> set ev \<and> IsAlreadyExists err
            \<longrightarrow> LogPrintf ''Creating istio route rules'' [] \<in> set ev)"
proof (cases "SplitMetaNamespaceKey p key")
  case (Inl e)
  then show ?thesis by (simp add: syncHandler_def emit_def)
next
  case (Inr nn)
  obtain namespace name where nn: "nn = (namespace, name)" by (cases nn)
  show ?thesis
  proof (cases "lister c namespace name (world s)")
    case (Inl err)
    with Inr nn show ?thesis by (simp add: syncHandler_def listerGet_def emit_def errOf_def)
  next
    case found: (Inr es)
    let ?s3 = "printf ''Creating/Updating placeholder k8s services'' []
                 (infof (''Running reconcile ElaService for %s'' @ [CHR 0x0A] @ ''%+v'' @ [CHR 0x0A])
                    [ArgString (Name es), ArgElaService es]
                    (emit (ClientGet ElaServicesR namespace name None) s))"
    obtain pre where t3: "trace ?s3 = trace s @ pre"
      and g3: "\<forall>e \<in> set pre. \<not> isQueueCall e \<and> \<not> isOverwriteOrDelete e \<and> (\<forall>err. \<not> isFailedFetch err e)"
      and c3: "\<forall>k n ob r. ClientCreate k n ob r \<notin> set pre"
      by (simp add: printf_def infof_def emit_def)
    obtain rs s4 where svc: "createPlaceholderService c p es namespace ?s3 = (rs, s4)"
      by (cases "createPlaceholderService c p es namespace ?s3")
    from createPlaceholderService_trace[of c p es namespace ?s3] svc obtain evS where
      tS: "trace s4 = trace ?s3 @ evS"
      and gS: "\<forall>e \<in> set evS. \<not> isQueueCall e \<and> \<not> isOverwriteOrDelete e \<and> (\<forall>err. \<not> isFailedFetch err e)"
      and cS: "\<forall>k n ob err. ClientCreate k n ob (Some err) \<in> set evS \<longrightarrow>
                 k = ServicesR \<and> rs = (if IsAlreadyExists err then None else Some err)"
      by auto
    show ?thesis
    proof (cases rs)
      case (Some err)
      have res: "syncHandler c p key s = (Some err, s4)"
        using Inr nn found svc Some
        by (simp add: syncHandler_def listerGet_def Let_def errOf_def)
      have t: "trace (snd (syncHandler c p key s)) = trace s @ (pre @ evS)"
        using res tS t3 by simp
      show ?thesis
        apply (rule exI[of _ "pre @ evS"])
        using t res g3 c3 gS cS Some
        apply (intro conjI)
        subgoal by simp
        subgoal by auto
        subgoal by auto
        subgoal by fastforce
        subgoal by fastforce
        subgoal by fastforce
        done
    next
      case None
      let ?m1 = "LogPrintf ''Creating or updating ingress rule'' []"
      let ?s5 = "printf ''Creating or updating ingress rule'' [] s4"
      have t5: "trace ?s5 = trace s4 @ [?m1]" by (simp add: printf_def emit_def)
      obtain ri s6 where ing: "createOrUpdateIngress c p es namespace ?s5 = (ri, s6)"
        by (cases "createOrUpdateIngress c p es namespace ?s5")
      from createOrUpdateIngress_trace[of c p es namespace ?s5] ing obtain evI where
        tI: "trace s6 = trace ?s5 @ evI"
        and gI: "\<forall>e \<in> set evI. \<not> isQueueCall e \<and> \<not> isOverwriteOrDelete e \<and> (\<forall>err. \<not> isFailedFetch err e)"
        and cI: "\<forall>k n ob err. ClientCreate k n ob (Some err) \<in> set evI \<longrightarrow> k = IngressesR \<and> ri = Some err"
        by auto
      show ?thesis
      proof (cases "\<exists>err. ri = Some err \<and> \<not> IsAlreadyExists err")
        case True
        then obtain err where ri: "ri = Some err" and nae: "\<not> IsAlreadyExists err" by blast
        let ?l = "LogPrintf ''Failed to create ingress rule: %s'' [ArgError err]"
        have res: "syncHandler c p key s = (Some err, printf ''Failed to create ingress rule: %s'' [ArgError err] s6)"
          using Inr nn found svc None ing ri nae
          by (simp add: syncHandler_def listerGet_def Let_def errOf_def)
        have t: "trace (snd (syncHandler c p key s)) = trace s @ (pre @ evS @ [?m1] @ evI @ [?l])"
          using res tS t3 t5 tI by (simp add: printf_def emit_def)
        show ?thesis
          apply (rule exI[of _ "pre @ evS @ [?m1] @ evI @ [?l]"])
          using t res g3 c3 gS cS gI cI None ri nae
          apply (intro conjI)
          subgoal by simp
          subgoal by auto
          subgoal by auto
          subgoal by fastforce
          subgoal by fastforce
          subgoal by fastforce
          done
      next
        case False
        let ?m2 = "LogPrintf ''Creating istio route rules'' []"
        let ?s7 = "printf ''Creating istio route rules'' [] s6"
        have t7: "trace ?s7 = trace s6 @ [?m2]" by (simp add: printf_def emit_def)
        obtain rr s8 where rt: "createOrUpdateRoutes c p es namespace ?s7 = (rr, s8)"
          by (cases "createOrUpdateRoutes c p es namespace ?s7")
        from createOrUpdateRoutes_trace[of c p es namespace ?s7] rt obtain evR where
          tR: "trace s8 = trace ?s7 @ evR"
          and aR: "list_all isRouteStepEvent evR"
          and fR: "\<forall>err. (\<exists>e \<in> set evR. isFailedFetch err e) \<longrightarrow> rr = Some err"
          by auto
        have gR: "\<forall>e \<in> set evR. \<not> isQueueCall e \<and> \<not> isOverwriteOrDelete e"
          using aR routeStep_plain by (auto simp: list_all_iff)
        have cR: "\<forall>k n ob r. ClientCreate k n ob r \<in> set evR \<longrightarrow> k = RouteRulesR"
          using aR by (auto simp: list_all_iff)
        obtain fin where fin: "syncHandler c p key s = (rr, emit fin s8)"
          and pf: "\<not> isQueueCall fin \<and> \<not> isOverwriteOrDelete fin \<and> (\<forall>err. \<not> isFailedFetch err fin)
                   \<and> (\<forall>k n ob r. fin \<noteq> ClientCreate k n ob r)"
        proof (cases rr)
          case rn: None
          have "syncHandler c p key s = (rr, emit (RecorderEvent (Name es) EventTypeNormal
                                                 SuccessSynced MessageResourceSynced) s8)"
            using Inr nn found svc None ing False rt rn
            by (cases ri) (simp_all add: syncHandler_def listerGet_def Let_def errOf_def)
          then show ?thesis using that by simp
        next
          case rs: (Some err)
          have "syncHandler c p key s = (rr, emit (LogPrintf ''Failed to create Routes: %s'' [ArgError err]) s8)"
            using Inr nn found svc None ing False rt rs
            by (cases ri) (simp_all add: syncHandler_def listerGet_def Let_def errOf_def printf_def)
          then show ?thesis using that by simp
        qed
        have t: "trace (snd (syncHandler c p key s)) = trace s @ (pre @ evS @ [?m1] @ evI @ [?m2] @ evR @ [fin])"
          using fin tS t3 t5 tI t7 tR by (simp add: emit_def)
        have r: "fst (syncHandler c p key s) = rr" using fin by simp
        have ae: "\<forall>err. ri = Some err \<longrightarrow> IsAlreadyExists err" using False by auto
        show ?thesis
          apply (rule exI[of _ "pre @ evS @ [?m1] @ evI @ [?m2] @ evR @ [fin]"])
          using t r g3 c3 gS cS gI cI gR cR fR pf None ae
          apply (intro conjI)
          subgoal by simp
          subgoal by auto
          subgoal by auto
          subgoal by fastforce
          subgoal by fastforce
          subgoal by fastforce
          done
      qed
    qed
  qed
qed

end
